theory Spec2Isabelle
  imports Main "HOL-Library.Char_ord" "HOL-Library.List_Lexorder"
begin

section \<open>The flattening utility \<open>sql_gen_flatten_json_cols.py\<close>\<close>

text \<open>
  The module has one function, \<open>construct_flattened_sql\<close>, and module-level code that
  calls it, prints the statement and saves it to a file. Everything the function learns
  about the table comes from three kinds of queries sent through the BigQuery client, so
  the client, the decoder \<open>json.loads\<close> and the file system are the environment of the
  model; the function itself is a pure function of its arguments and that environment.

  Strings are \<open>string\<close> (lists of bytes). Python orders \<open>str\<close> by code point, and the
  byte-wise lexicographic order on UTF-8 (\<open>List_Lexorder\<close> over \<open>Char_ord\<close>) is the same
  order, so \<open>sorted\<close> is \<open>sort\<close>.
\<close>

subsection \<open>Values and errors\<close>

text \<open>
  What \<open>json.loads\<close> returns. The program only asks a decoded value for its \<open>keys()\<close>, so
  the scalars carry no more than their kind; an object is the \<open>dict\<close> in insertion order.
\<close>

datatype json =
    JNull
  | JBool bool
  | JInt int
  | JFloat string
  | JString string
  | JArray "json list"
  | JObject "(string \<times> json) list"

text \<open>
  The exceptions that can leave the module: a failure of the client or of a query (with
  the warehouse's message), \<open>json.JSONDecodeError\<close> from \<open>json.loads\<close>,
  \<open>AttributeError\<close> from \<open>.keys()\<close> on a decoded value that is not a \<open>dict\<close>, and
  \<open>OSError\<close> from \<open>open\<close>.
\<close>

datatype error =
    WarehouseError string
  | JSONDecodeError
  | AttributeError
  | OSError

text \<open>
  The environment of one run. \<open>client_init\<close> is \<open>bigquery.Client(project=...)\<close>, which
  may fail; \<open>client_query\<close> is \<open>client.query(q).result()\<close> for the text \<open>q\<close>: a failure or the
  rows, each row given by the one cell the program reads from it (\<open>row.column_name\<close>, or
  \<open>getattr(row, col)\<close>); \<open>json_loads\<close> is \<open>json.loads\<close>, \<open>None\<close> when it raises.
\<close>

record env =
  client_init :: "string \<Rightarrow> error option"
  client_query :: "string \<Rightarrow> error + string list"
  json_loads :: "string \<Rightarrow> json option"

text \<open>
  The part of the outside world the module-level code changes: the files of the working
  directory, the names \<open>open(name, 'w')\<close> refuses, and the lines printed so far.
\<close>

record world =
  files :: "string \<rightharpoonup> string"
  write_denied :: "string \<Rightarrow> bool"
  stdout :: "string list"

subsection \<open>String formatting\<close>

text \<open>\<open>str(n)\<close> for a Python \<open>int\<close>, as the f-string \<open>{seen[col]}\<close> formats it.\<close>

fun str_nat :: "nat \<Rightarrow> string" where
  "str_nat n =
     (if n < 10 then [''0123456789'' ! n]
      else str_nat (n div 10) @ [''0123456789'' ! (n mod 10)])"

definition str_int :: "int \<Rightarrow> string" where
  "str_int i = (if i < 0 then ''-'' @ str_nat (nat (- i)) else str_nat (nat i))"

text \<open>\<open>sep.join(xs)\<close>.\<close>

fun join_str :: "string \<Rightarrow> string list \<Rightarrow> string" where
  "join_str sep [] = []"
| "join_str sep [x] = x"
| "join_str sep (x # y # ys) = x @ sep @ join_str sep (y # ys)"

text \<open>The three query texts, with the line breaks and indentation of the source.\<close>

definition json_columns_query :: "string \<Rightarrow> string \<Rightarrow> string \<Rightarrow> string" where
  "json_columns_query project_id dataset_id table_id =
     ''\<newline>        SELECT column_name\<newline>        FROM `'' @ project_id @ ''.'' @ dataset_id @
     ''.INFORMATION_SCHEMA.COLUMNS`\<newline>        WHERE table_name = '' @ [CHR 0x27] @ table_id @
     [CHR 0x27] @ '' AND data_type = '' @ [CHR 0x27] @ ''JSON'' @ [CHR 0x27] @ '';\<newline>    ''"

definition sample_query :: "string \<Rightarrow> string \<Rightarrow> string \<Rightarrow> string \<Rightarrow> string" where
  "sample_query project_id dataset_id table_id col =
     ''\<newline>            SELECT '' @ col @ ''\<newline>            FROM `'' @ project_id @ ''.'' @
     dataset_id @ ''.'' @ table_id @ ''`\<newline>            WHERE '' @ col @
     '' IS NOT NULL\<newline>            LIMIT 1;\<newline>        ''"

definition all_columns_query :: "string \<Rightarrow> string \<Rightarrow> string \<Rightarrow> string" where
  "all_columns_query project_id dataset_id table_id =
     ''\<newline>        SELECT column_name \<newline>        FROM `'' @ project_id @ ''.'' @ dataset_id @
     ''.INFORMATION_SCHEMA.COLUMNS`\<newline>        WHERE table_name = '' @ [CHR 0x27] @ table_id @
     [CHR 0x27] @ '';\<newline>    ''"

subsection \<open>Sampling the JSON columns\<close>

text \<open>\<open>list(json_data.keys())\<close>: the keys of a \<open>dict\<close>; any other value has no \<open>keys\<close>.\<close>

fun dict_keys :: "json \<Rightarrow> error + string list" where
  "dict_keys (JObject kvs) = Inr (map fst kvs)"
| "dict_keys _ = Inl AttributeError"

text \<open>
  The loop \<open>for col in json_cols\<close>, with \<open>new_columns\<close> as accumulator. A failed query,
  a value that does not decode and a decoded value that is not a \<open>dict\<close> end the run; a
  column with no row is passed over (\<open>continue\<close>); only \<open>rows[0]\<close> is read.
\<close>

fun sample_loop ::
  "env \<Rightarrow> string \<Rightarrow> string \<Rightarrow> string \<Rightarrow> string list \<Rightarrow> string list \<Rightarrow> error + string list"
where
  "sample_loop E project_id dataset_id table_id [] new_columns = Inr new_columns"
| "sample_loop E project_id dataset_id table_id (col # cols) new_columns =
     (case client_query E (sample_query project_id dataset_id table_id col) of
        Inl e \<Rightarrow> Inl e
      | Inr rows \<Rightarrow>
          (case rows of
             [] \<Rightarrow> sample_loop E project_id dataset_id table_id cols new_columns
           | json_string # _ \<Rightarrow>
               (case json_loads E json_string of
                  None \<Rightarrow> Inl JSONDecodeError
                | Some json_data \<Rightarrow>
                    (case dict_keys json_data of
                       Inl e \<Rightarrow> Inl e
                     | Inr keys \<Rightarrow>
                         sample_loop E project_id dataset_id table_id cols
                           (new_columns @ keys)))))"

subsection \<open>Renaming duplicates\<close>

text \<open>
  One iteration of \<open>for col in combined_columns\<close> on the state \<open>(seen, final_columns)\<close>;
  \<open>combined_columns.count(col)\<close> counts in the whole list.
\<close>

fun rename_step ::
  "string list \<Rightarrow> (string \<rightharpoonup> int) \<times> string list \<Rightarrow> string \<Rightarrow> (string \<rightharpoonup> int) \<times> string list"
where
  "rename_step combined_columns (seen, final_columns) col =
     (if 1 < count_list combined_columns col \<and> seen col \<noteq> None
      then (let n = the (seen col) + 1
            in (seen(col \<mapsto> n), final_columns @ [col @ ''_'' @ str_int n]))
      else (seen(col \<mapsto> 1), final_columns @ [col]))"

text \<open>The state after the loop has walked \<open>cols\<close>, from \<open>seen = {}\<close> and \<open>final_columns = []\<close>.\<close>

definition rename_walk ::
  "string list \<Rightarrow> string list \<Rightarrow> (string \<rightharpoonup> int) \<times> string list" where
  "rename_walk combined_columns cols = foldl (rename_step combined_columns) (Map.empty, []) cols"

definition adjust_duplicates :: "string list \<Rightarrow> string list" where
  "adjust_duplicates combined_columns = snd (rename_walk combined_columns combined_columns)"

subsection \<open>The function and the module-level code\<close>

definition final_sql :: "string \<Rightarrow> string \<Rightarrow> string \<Rightarrow> string list \<Rightarrow> string" where
  "final_sql project_id dataset_id table_id final_columns =
     ''SELECT '' @ join_str '', '' final_columns @ '' FROM `'' @ project_id @ ''.'' @
     dataset_id @ ''.'' @ table_id @ ''`;''"

definition construct_flattened_sql :: "env \<Rightarrow> string \<Rightarrow> string \<Rightarrow> string \<Rightarrow> error + string" where
  "construct_flattened_sql E project_id dataset_id table_id =
     (case client_init E project_id of
        Some e \<Rightarrow> Inl e
      | None \<Rightarrow>
          (case client_query E (json_columns_query project_id dataset_id table_id) of
             Inl e \<Rightarrow> Inl e
           | Inr json_cols \<Rightarrow>
               (case sample_loop E project_id dataset_id table_id json_cols [] of
                  Inl e \<Rightarrow> Inl e
                | Inr new_columns \<Rightarrow>
                    (case client_query E (all_columns_query project_id dataset_id table_id) of
                       Inl e \<Rightarrow> Inl e
                     | Inr all_columns_in_table \<Rightarrow>
                         Inr (final_sql project_id dataset_id table_id
                                (adjust_duplicates (sort (all_columns_in_table @ new_columns))))))))"

text \<open>
  The module-level code for given values of the three globals: the call, \<open>print\<close>, the
  write to \<open><table_id>_flattened.sql\<close> (mode \<open>'w'\<close>: the file is replaced) and the second
  \<open>print\<close>. An exception ends the run where it is raised; the result is that exception, if
  any, and the world as the run left it.
\<close>

definition run_module :: "env \<Rightarrow> string \<Rightarrow> string \<Rightarrow> string \<Rightarrow> world \<Rightarrow> error option \<times> world" where
  "run_module E project_id dataset_id table_id w =
     (case construct_flattened_sql E project_id dataset_id table_id of
        Inl e \<Rightarrow> (Some e, w)
      | Inr sql_string \<Rightarrow>
          (let w1 = w\<lparr>stdout := stdout w @ [sql_string]\<rparr>;
               file_name = table_id @ ''_flattened.sql''
           in if write_denied w1 file_name then (Some OSError, w1)
              else (None, w1\<lparr>files := (files w1)(file_name \<mapsto> sql_string),
                              stdout := stdout w1 @ [''SQL saved to '' @ file_name]\<rparr>)))"

definition module_entry :: "env \<Rightarrow> world \<Rightarrow> error option \<times> world" where
  "module_entry E w = run_module E ''PROJECT_ID'' ''DATASET_ID'' ''TABLE_ID'' w"

subsection \<open>Example tables\<close>

text \<open>
  Concrete environments, used below to run the model: a working directory that already
  holds \<open>orders_flattened.sql\<close>; a table without JSON columns; the
  table \<open>orders\<close> with the JSON columns \<open>props\<close> (whose sampled document has nested values)
  and \<open>notes\<close> (all null, so its sample has no row); the same table answered by a second
  warehouse that differs only on a query the program never sends; a table whose column
  \<open>raw\<close> holds text that does not decode; and a table that declares both \<open>id\<close> and \<open>id_2\<close>
  while the document in \<open>props\<close> has the key \<open>id\<close>.
\<close>

definition world_old :: world where
  "world_old = \<lparr>files = [''orders_flattened.sql'' \<mapsto> ''SELECT 1;''],
                 write_denied = (\<lambda>name. False), stdout = []\<rparr>"

definition env_plain :: env where
  "env_plain =
     \<lparr>client_init = (\<lambda>project_id. None),
      client_query = (\<lambda>q.
        if q = json_columns_query ''proj'' ''ds'' ''events'' then Inr []
        else if q = all_columns_query ''proj'' ''ds'' ''events''
          then Inr [''id'', ''created_at'', ''total'']
        else Inl (WarehouseError ''unexpected query'')),
      json_loads = (\<lambda>s. None)\<rparr>"

definition props_doc :: string where
  "props_doc = ''{\"status\": \"open\", \"address\": {\"city\": \"Oslo\", \"zip\": [0, 1]}}''"

definition props_value :: json where
  "props_value =
     JObject [(''status'', JString ''open''),
              (''address'', JObject [(''city'', JString ''Oslo''),
                                      (''zip'', JArray [JInt 0, JInt 1])])]"

definition env_orders :: env where
  "env_orders =
     \<lparr>client_init = (\<lambda>project_id. None),
      client_query = (\<lambda>q.
        if q = json_columns_query ''proj'' ''ds'' ''orders'' then Inr [''props'', ''notes'']
        else if q = sample_query ''proj'' ''ds'' ''orders'' ''props'' then Inr [props_doc]
        else if q = sample_query ''proj'' ''ds'' ''orders'' ''notes'' then Inr []
        else if q = all_columns_query ''proj'' ''ds'' ''orders''
          then Inr [''id'', ''created_at'', ''notes'', ''props'']
        else Inl (WarehouseError ''unexpected query'')),
      json_loads = (\<lambda>s. if s = props_doc then Some props_value else None)\<rparr>"

definition env_orders_again :: env where
  "env_orders_again =
     env_orders\<lparr>client_query := (client_query env_orders)(''SELECT 1'' := Inr [''1''])\<rparr>"

definition env_broken :: env where
  "env_broken =
     \<lparr>client_init = (\<lambda>project_id. None),
      client_query = (\<lambda>q.
        if q = json_columns_query ''proj'' ''ds'' ''orders'' then Inr [''props'', ''raw'']
        else if q = sample_query ''proj'' ''ds'' ''orders'' ''props'' then Inr [props_doc]
        else if q = sample_query ''proj'' ''ds'' ''orders'' ''raw'' then Inr [''{oops'']
        else if q = all_columns_query ''proj'' ''ds'' ''orders''
          then Inr [''id'', ''props'', ''raw'']
        else Inl (WarehouseError ''unexpected query'')),
      json_loads = (\<lambda>s. if s = props_doc then Some props_value else None)\<rparr>"

definition env_collision :: env where
  "env_collision =
     \<lparr>client_init = (\<lambda>project_id. None),
      client_query = (\<lambda>q.
        if q = json_columns_query ''proj'' ''ds'' ''orders'' then Inr [''props'']
        else if q = sample_query ''proj'' ''ds'' ''orders'' ''props'' then Inr [''{\"id\": 7}'']
        else if q = all_columns_query ''proj'' ''ds'' ''orders''
          then Inr [''id'', ''id_2'', ''props'']
        else Inl (WarehouseError ''unexpected query'')),
      json_loads = (\<lambda>s. if s = ''{\"id\": 7}'' then Some (JObject [(''id'', JInt 7)]) else None)\<rparr>"

section \<open>The renaming pass\<close>

lemma str_int_small: "str_int 1 = ''1''" "str_int 2 = ''2''"
  by (simp_all add: str_int_def)

text \<open>
  The loop state after a prefix of the list: \<open>seen\<close> holds, for every name met so far, how
  often it was met, and \<open>final_columns\<close> only grows, one entry per name walked.
\<close>

lemma rename_walk_snoc:
  "rename_walk xs (pre @ [c]) = rename_step xs (rename_walk xs pre) c"
  by (simp add: rename_walk_def)

lemma rename_walk_seen:
  "fst (rename_walk (pre @ post) pre) =
     (\<lambda>c. if c \<in> set pre then Some (int (count_list pre c)) else None)"
proof (induction pre arbitrary: post rule: rev_induct)
  case Nil
  show ?case by (simp add: rename_walk_def)
next
  case (snoc c pre)
  have ih: "fst (rename_walk (pre @ c # post) pre) =
     (\<lambda>c. if c \<in> set pre then Some (int (count_list pre c)) else None)"
    using snoc.IH [of "c # post"] by simp
  obtain seen out where st: "rename_walk (pre @ c # post) pre = (seen, out)"
    by (cases "rename_walk (pre @ c # post) pre")
  have seen: "seen = (\<lambda>c. if c \<in> set pre then Some (int (count_list pre c)) else None)"
    using ih st by simp
  have pos: "c \<in> set pre \<Longrightarrow> 0 < count_list pre c"
    using count_list_0_iff [of pre c] by (cases "count_list pre c") auto
  show ?case
    using pos by (auto simp add: rename_walk_snoc st seen fun_eq_iff Let_def)
qed

lemma rename_fold_grows:
  "\<exists>ys. snd (foldl (rename_step xs) st cols) = snd st @ ys \<and> length ys = length cols"
proof (induction cols arbitrary: st)
  case Nil
  show ?case by simp
next
  case (Cons c cols)
  obtain seen out where st: "st = (seen, out)" by (cases st)
  obtain ys where ys: "snd (foldl (rename_step xs) (rename_step xs st c) cols) =
      snd (rename_step xs st c) @ ys" "length ys = length cols"
    using Cons.IH by blast
  show ?case
    using ys by (auto simp add: st Let_def)
qed

lemma length_rename_walk: "length (snd (rename_walk xs cols)) = length cols"
  using rename_fold_grows [of xs "(Map.empty, [])" cols] by (auto simp add: rename_walk_def)

lemma length_adjust_duplicates: "length (adjust_duplicates xs) = length xs"
  by (simp add: adjust_duplicates_def length_rename_walk)

lemma rename_walk_nth_prefix:
  "i < length pre \<Longrightarrow> snd (rename_walk xs (pre @ post)) ! i = snd (rename_walk xs pre) ! i"
proof -
  assume i: "i < length pre"
  obtain ys where "snd (foldl (rename_step xs) (rename_walk xs pre) post) =
      snd (rename_walk xs pre) @ ys"
    using rename_fold_grows by blast
  then have "snd (rename_walk xs (pre @ post)) = snd (rename_walk xs pre) @ ys"
    by (simp add: rename_walk_def)
  then show ?thesis using i by (simp add: nth_append length_rename_walk)
qed

lemma adjust_duplicates_nth:
  "adjust_duplicates (pre @ c # post) ! length pre =
     (if c \<in> set pre then c @ ''_'' @ str_int (int (count_list pre c) + 1) else c)"
proof -
  let ?xs = "pre @ c # post"
  obtain seen out where st: "rename_walk ?xs pre = (seen, out)"
    by (cases "rename_walk ?xs pre")
  have seen: "seen = (\<lambda>c. if c \<in> set pre then Some (int (count_list pre c)) else None)"
    using rename_walk_seen [of pre "c # post"] st by simp
  have len: "length out = length pre"
    using length_rename_walk [of ?xs pre] st by simp
  have "adjust_duplicates ?xs ! length pre = snd (rename_walk ?xs ((pre @ [c]) @ post)) ! length pre"
    by (simp add: adjust_duplicates_def)
  also have "\<dots> = snd (rename_walk ?xs (pre @ [c])) ! length pre"
    by (rule rename_walk_nth_prefix) simp
  also have "\<dots> = snd (rename_step ?xs (seen, out) c) ! length pre"
    by (simp add: rename_walk_snoc st)
  also have "\<dots> = (if c \<in> set pre then c @ ''_'' @ str_int (int (count_list pre c) + 1) else c)"
    using len by (auto simp add: seen Let_def nth_append count_list_0_iff)
  finally show ?thesis .
qed

text \<open>The entry at a position depends only on the names before it.\<close>

lemma adjust_duplicates_at:
  assumes "i < length xs"
  shows "adjust_duplicates xs ! i =
     (if xs ! i \<in> set (take i xs)
      then xs ! i @ ''_'' @ str_int (int (count_list (take i xs) (xs ! i)) + 1)
      else xs ! i)"
proof -
  have split: "xs = take i xs @ xs ! i # drop (Suc i) xs"
    using assms by (rule id_take_nth_drop)
  have len: "length (take i xs) = i"
    using assms by simp
  show ?thesis
    using adjust_duplicates_nth [of "take i xs" "xs ! i" "drop (Suc i) xs"]
    by (simp only: split [symmetric] len)
qed

lemma distinct_nth_not_before:
  "distinct xs \<Longrightarrow> i < length xs \<Longrightarrow> xs ! i \<notin> set (take i xs)"
  by (auto simp add: in_set_conv_nth nth_eq_iff_index_eq)

lemma adjust_duplicates_distinct:
  assumes "distinct xs"
  shows "adjust_duplicates xs = xs"
proof (rule nth_equalityI)
  show "length (adjust_duplicates xs) = length xs"
    by (rule length_adjust_duplicates)
next
  fix i
  assume "i < length (adjust_duplicates xs)"
  then have i: "i < length xs"
    by (simp add: length_adjust_duplicates)
  then show "adjust_duplicates xs ! i = xs ! i"
    using distinct_nth_not_before [OF assms i] by (simp add: adjust_duplicates_at)
qed

subsection \<open>C1: the suffix of a repeated name\<close>

text \<open>
  Claim C1 as stated: the second occurrence of a repeated name gets the suffix \<open>_1\<close>, so
  that \<open>["id", "status", "status"]\<close> becomes \<open>["id", "status", "status_1"]\<close>. The loop
  seeds the counter with 1 at the first occurrence and increments it before it formats
  the suffix, so the list it returns is another one.
\<close>

theorem second_occurrence_not_suffixed_1:
  "adjust_duplicates [''id'', ''status'', ''status''] \<noteq> [''id'', ''status'', ''status_1'']"
  by (simp add: adjust_duplicates_def rename_walk_def str_int_small)

text \<open>
  Claim C1, amended: the first occurrence of a repeated name is emitted bare and every
  later occurrence with the suffix \<open>_N\<close>, where \<open>N\<close> is one more than the number of prior
  occurrences of that name (\<open>_2\<close> for the second occurrence); for the sorted input
  \<open>["id", "status", "status"]\<close> the final list is \<open>["id", "status", "status_2"]\<close>.
\<close>

theorem second_occurrence_suffixed_2:
  "adjust_duplicates [''id'', ''status'', ''status''] = [''id'', ''status'', ''status_2'']
   \<and> adjust_duplicates (pre @ c # post) ! length pre =
       (if c \<in> set pre then c @ ''_'' @ str_int (int (count_list pre c) + 1) else c)"
  by (simp add: adjust_duplicates_nth)
     (simp add: adjust_duplicates_def rename_walk_def str_int_small)

text \<open>
  The same on the combined list of a table \<open>orders\<close> with the declared columns \<open>id\<close>,
  \<open>created_at\<close>, \<open>props\<close> and the sampled keys \<open>status\<close>, \<open>id\<close>.
\<close>

lemma orders_scenario_final_list:
  "adjust_duplicates (sort ([''id'', ''created_at'', ''props''] @ [''status'', ''id''])) =
     [''created_at'', ''id'', ''id_2'', ''props'', ''status'']"
  by (simp add: adjust_duplicates_def rename_walk_def str_int_small)

subsection \<open>C2: the walk and its counters\<close>

text \<open>
  Claim C2: the pass walks the sequence once with a counter per name. After any prefix
  \<open>pre\<close> the mapping holds exactly the names of \<open>pre\<close>, each with its number of occurrences
  in \<open>pre\<close> (so 1 after the first sight). At the next name \<open>c\<close>: when \<open>c\<close> occurs more than
  once in the whole sequence and is already in the mapping, the counter is incremented
  and \<open>c\<close> is appended with the new counter value as suffix; otherwise the counter is set
  to 1 and \<open>c\<close> is appended bare. In particular the first occurrence of every name, repeated
  or not, is appended bare.
\<close>

theorem rename_walk_counters:
  "fst (rename_walk (pre @ c # post) pre) name =
     (if name \<in> set pre then Some (int (count_list pre name)) else None)
   \<and> rename_walk (pre @ c # post) (pre @ [c]) =
       (case rename_walk (pre @ c # post) pre of
          (seen, final_columns) \<Rightarrow>
            if 1 < count_list (pre @ c # post) c \<and> c \<in> dom seen
            then (seen(c \<mapsto> the (seen c) + 1),
                  final_columns @ [c @ ''_'' @ str_int (the (seen c) + 1)])
            else (seen(c \<mapsto> 1), final_columns @ [c]))
   \<and> (c \<notin> set pre \<longrightarrow>
        fst (rename_walk (pre @ c # post) (pre @ [c])) c = Some 1
        \<and> adjust_duplicates (pre @ c # post) ! length pre = c)"
proof (intro conjI impI)
  show "fst (rename_walk (pre @ c # post) pre) name =
     (if name \<in> set pre then Some (int (count_list pre name)) else None)"
    by (simp add: rename_walk_seen)
next
  show "rename_walk (pre @ c # post) (pre @ [c]) =
       (case rename_walk (pre @ c # post) pre of
          (seen, final_columns) \<Rightarrow>
            if 1 < count_list (pre @ c # post) c \<and> c \<in> dom seen
            then (seen(c \<mapsto> the (seen c) + 1),
                  final_columns @ [c @ ''_'' @ str_int (the (seen c) + 1)])
            else (seen(c \<mapsto> 1), final_columns @ [c]))"
    by (cases "rename_walk (pre @ c # post) pre")
       (simp add: rename_walk_snoc Let_def dom_def)
next
  assume "c \<notin> set pre"
  then show "fst (rename_walk (pre @ c # post) (pre @ [c])) c = Some 1"
    using rename_walk_seen [of "pre @ [c]" post] by simp
next
  assume "c \<notin> set pre"
  then show "adjust_duplicates (pre @ c # post) ! length pre = c"
    by (simp add: adjust_duplicates_nth)
qed

text \<open>
  The first \<open>status\<close> of \<open>["id", "status", "status"]\<close>: not met before, counter 1, bare.
\<close>

theorem rename_walk_counters_witness:
  "''status'' \<notin> set [''id'']
   \<and> fst (rename_walk [''id'', ''status'', ''status''] [''id'', ''status'']) ''status'' = Some 1
   \<and> adjust_duplicates [''id'', ''status'', ''status''] ! 1 = ''status''"
  using rename_walk_counters [of "[''id'']" "''status''" "[''status'']" "''id''"]
  by (simp add: rename_walk_def adjust_duplicates_def)

subsection \<open>C10: renaming keeps the length\<close>

text \<open>
  Claim C10: the renaming pass returns one entry per entry of its input, each the name
  at that position, bare or followed by \<open>_\<close> and a number; so the final column list has as
  many entries as there are declared columns and discovered field names together.
\<close>

theorem adjust_duplicates_keeps_length:
  "length (adjust_duplicates xs) = length xs
   \<and> (\<forall>i<length xs. adjust_duplicates xs ! i = xs ! i
          \<or> (\<exists>n. adjust_duplicates xs ! i = xs ! i @ ''_'' @ str_int n))
   \<and> length (adjust_duplicates (sort (all_columns_in_table @ new_columns))) =
       length all_columns_in_table + length new_columns"
  by (auto simp add: length_adjust_duplicates adjust_duplicates_at)

theorem adjust_duplicates_keeps_length_witness:
  "(1::nat) < length [''a'', ''a'']
   \<and> length (adjust_duplicates [''a'', ''a'']) = 2
   \<and> (adjust_duplicates [''a'', ''a''] ! 1 = [''a'', ''a''] ! 1
      \<or> (\<exists>n. adjust_duplicates [''a'', ''a''] ! 1 = [''a'', ''a''] ! 1 @ ''_'' @ str_int n))"
proof -
  have all: "\<forall>i<length [''a'', ''a''].
      adjust_duplicates [''a'', ''a''] ! i = [''a'', ''a''] ! i
      \<or> (\<exists>n. adjust_duplicates [''a'', ''a''] ! i = [''a'', ''a''] ! i @ ''_'' @ str_int n)"
    using adjust_duplicates_keeps_length [of "[''a'', ''a'']" "[]" "[]"] by blast
  have one: "(1::nat) < length [''a'', ''a'']"
    by simp
  show ?thesis
    using all [rule_format, OF one] one
      adjust_duplicates_keeps_length [of "[''a'', ''a'']" "[]" "[]"]
    by simp
qed

section \<open>The pipeline\<close>

text \<open>
  The sampling loop over a concatenation: a failure in the first part ends the loop, and
  otherwise the second part starts from what the first has collected.
\<close>

lemma sample_loop_append:
  "sample_loop E p d t (pre @ rest) acc =
     (case sample_loop E p d t pre acc of
        Inl e \<Rightarrow> Inl e
      | Inr acc' \<Rightarrow> sample_loop E p d t rest acc')"
  by (induction pre arbitrary: acc)
     (auto split: sum.splits list.splits option.splits)

lemma sample_loop_agree:
  assumes "\<And>col. col \<in> set cols \<Longrightarrow>
      client_query E1 (sample_query p d t col) = client_query E2 (sample_query p d t col)"
    and "json_loads E1 = json_loads E2"
  shows "sample_loop E1 p d t cols acc = sample_loop E2 p d t cols acc"
  using assms
proof (induction cols arbitrary: acc)
  case Nil
  show ?case by simp
next
  case (Cons col cols)
  have q: "client_query E1 (sample_query p d t col) = client_query E2 (sample_query p d t col)"
    using Cons.prems(1) by simp
  have ih: "\<And>acc. sample_loop E1 p d t cols acc = sample_loop E2 p d t cols acc"
    using Cons.IH Cons.prems by simp
  show ?case
    by (simp add: q ih Cons.prems(2) split: sum.splits list.splits option.splits)
qed

text \<open>The example tables, query by query.\<close>

lemmas query_defs = json_columns_query_def sample_query_def all_columns_query_def

lemma env_plain_facts:
  "client_init env_plain p = None"
  "client_query env_plain (json_columns_query ''proj'' ''ds'' ''events'') = Inr []"
  "client_query env_plain (all_columns_query ''proj'' ''ds'' ''events'') =
     Inr [''id'', ''created_at'', ''total'']"
  by (simp_all add: env_plain_def query_defs)

lemma env_orders_facts:
  "client_init env_orders p = None"
  "client_query env_orders (json_columns_query ''proj'' ''ds'' ''orders'') =
     Inr [''props'', ''notes'']"
  "client_query env_orders (sample_query ''proj'' ''ds'' ''orders'' ''props'') = Inr [props_doc]"
  "client_query env_orders (sample_query ''proj'' ''ds'' ''orders'' ''notes'') = Inr []"
  "client_query env_orders (all_columns_query ''proj'' ''ds'' ''orders'') =
     Inr [''id'', ''created_at'', ''notes'', ''props'']"
  "json_loads env_orders props_doc = Some props_value"
  by (simp_all add: env_orders_def query_defs)

lemma env_orders_sample:
  "sample_loop env_orders ''proj'' ''ds'' ''orders'' [''props''] [] = Inr [''status'', ''address'']"
  "sample_loop env_orders ''proj'' ''ds'' ''orders'' [''props'', ''notes''] [] =
     Inr [''status'', ''address'']"
  by (simp_all add: env_orders_facts props_value_def)

lemma env_broken_facts:
  "client_init env_broken p = None"
  "client_query env_broken (json_columns_query ''proj'' ''ds'' ''orders'') =
     Inr ([''props''] @ ''raw'' # [])"
  "client_query env_broken (sample_query ''proj'' ''ds'' ''orders'' ''props'') = Inr [props_doc]"
  "client_query env_broken (sample_query ''proj'' ''ds'' ''orders'' ''raw'') = Inr [''{oops'']"
  "json_loads env_broken props_doc = Some props_value"
  "json_loads env_broken ''{oops'' = None"
  by (simp_all add: env_broken_def query_defs props_doc_def)

lemma env_broken_sample:
  "sample_loop env_broken ''proj'' ''ds'' ''orders'' [''props''] [] = Inr [''status'', ''address'']"
  by (simp add: env_broken_facts props_value_def)

lemma env_collision_facts:
  "client_init env_collision p = None"
  "client_query env_collision (json_columns_query ''proj'' ''ds'' ''orders'') = Inr [''props'']"
  "client_query env_collision (sample_query ''proj'' ''ds'' ''orders'' ''props'') =
     Inr [''{\"id\": 7}'']"
  "client_query env_collision (all_columns_query ''proj'' ''ds'' ''orders'') =
     Inr [''id'', ''id_2'', ''props'']"
  "json_loads env_collision ''{\"id\": 7}'' = Some (JObject [(''id'', JInt 7)])"
  by (simp_all add: env_collision_def query_defs)

lemma adjust_collision:
  "adjust_duplicates [''id'', ''id'', ''id_2'', ''props''] = [''id'', ''id_2'', ''id_2'', ''props'']"
  by (simp add: adjust_duplicates_def rename_walk_def str_int_small)

lemma adjust_orders:
  "adjust_duplicates [''address'', ''created_at'', ''id'', ''notes'', ''props'', ''status''] =
     [''address'', ''created_at'', ''id'', ''notes'', ''props'', ''status'']"
  by (rule adjust_duplicates_distinct) simp

lemma world_old_facts:
  "\<not> write_denied world_old (''orders'' @ ''_flattened.sql'')"
  "files world_old ''orders_flattened.sql'' = Some ''SELECT 1;''"
  by (simp_all add: world_old_def)

lemma env_orders_again_facts:
  "client_init env_orders p = client_init env_orders_again p"
  "client_query env_orders (json_columns_query ''proj'' ''ds'' ''orders'') =
     client_query env_orders_again (json_columns_query ''proj'' ''ds'' ''orders'')"
  "client_query env_orders (sample_query ''proj'' ''ds'' ''orders'' col) =
     client_query env_orders_again (sample_query ''proj'' ''ds'' ''orders'' col)"
  "json_loads env_orders = json_loads env_orders_again"
  "client_query env_orders (all_columns_query ''proj'' ''ds'' ''orders'') =
     client_query env_orders_again (all_columns_query ''proj'' ''ds'' ''orders'')"
  "client_query env_orders ''SELECT 1'' \<noteq> client_query env_orders_again ''SELECT 1''"
  by (simp_all add: env_orders_again_def query_defs) (simp add: env_orders_def query_defs)

lemma env_orders_sql:
  "construct_flattened_sql env_orders ''proj'' ''ds'' ''orders'' =
     Inr ''SELECT address, created_at, id, notes, props, status FROM `proj.ds.orders`;''"
  by (simp add: construct_flattened_sql_def env_orders_facts props_value_def adjust_orders
      final_sql_def)

lemma env_orders_run:
  "fst (run_module env_orders ''proj'' ''ds'' ''orders'' world_old) = None"
  by (simp add: run_module_def env_orders_sql Let_def world_old_def)

subsection \<open>C3: are the final names distinct?\<close>

text \<open>
  Claim C3 says that no name occurs twice in the final column list, for every input. The
  renaming pass only looks at names that repeat; it never checks a name it has built
  against the names already in the list. For the table that declares \<open>id\<close>, \<open>id_2\<close> and
  \<open>props\<close>, with the key \<open>id\<close> in the sampled document, the second \<open>id\<close> becomes \<open>id_2\<close>, which
  is also a declared column: the statement selects \<open>id_2\<close> twice.
\<close>

theorem colliding_suffix_repeats_a_name:
  "construct_flattened_sql env_collision ''proj'' ''ds'' ''orders'' =
     Inr ''SELECT id, id_2, id_2, props FROM `proj.ds.orders`;''
   \<and> \<not> distinct (adjust_duplicates (sort ([''id'', ''id_2'', ''props''] @ [''id''])))"
  by (simp add: construct_flattened_sql_def env_collision_facts adjust_collision final_sql_def)

subsection \<open>C4: a table without JSON columns\<close>

text \<open>
  Claim C4: when the catalog reports no JSON column, and the declared names are pairwise
  distinct, the final column list is the sorted list of declared names, nothing is
  renamed, and the statement selects exactly those columns.
\<close>

theorem no_json_columns_sorted_declared:
  assumes "client_init E p = None"
    and "client_query E (json_columns_query p d t) = Inr []"
    and "client_query E (all_columns_query p d t) = Inr cols"
    and "distinct cols"
  shows "adjust_duplicates (sort (cols @ [])) = sort cols
    \<and> construct_flattened_sql E p d t =
        Inr (''SELECT '' @ join_str '', '' (sort cols) @ '' FROM `'' @ p @ ''.'' @ d @ ''.'' @ t @ ''`;'')"
proof -
  have "distinct (sort cols)"
    using assms(4) by simp
  then have same: "adjust_duplicates (sort cols) = sort cols"
    by (rule adjust_duplicates_distinct)
  show ?thesis
    using assms(1-3) by (simp add: construct_flattened_sql_def final_sql_def same)
qed

theorem no_json_columns_sorted_declared_witness:
  "distinct [''id'', ''created_at'', ''total'']
   \<and> construct_flattened_sql env_plain ''proj'' ''ds'' ''events'' =
       Inr ''SELECT created_at, id, total FROM `proj.ds.events`;''"
proof -
  have d: "distinct [''id'', ''created_at'', ''total'']"
    by simp
  show ?thesis
    using no_json_columns_sorted_declared [OF env_plain_facts(1) env_plain_facts(2) env_plain_facts(3) d] d by simp
qed

subsection \<open>C5: the fields one sampled document contributes\<close>

text \<open>
  Claim C5: a JSON column whose sampled value decodes to a document contributes exactly
  the top-level keys of that document, in its order, whatever the values under the keys
  are: nested objects and arrays are not descended into.
\<close>

theorem sampled_document_top_level_keys:
  assumes "client_query E (sample_query p d t col) = Inr (json_string # rows)"
    and "json_loads E json_string = Some (JObject kvs)"
  shows "sample_loop E p d t [col] [] = Inr (map fst kvs)
    \<and> sample_loop E p d t (col # cols) new_columns =
        sample_loop E p d t cols (new_columns @ map fst kvs)"
  using assms by simp

text \<open>
  The document of \<open>props\<close> has an object with an array inside under \<open>address\<close>; only
  \<open>status\<close> and \<open>address\<close> are collected.
\<close>

theorem sampled_document_top_level_keys_witness:
  "sample_loop env_orders ''proj'' ''ds'' ''orders'' [''props''] [] = Inr [''status'', ''address'']
   \<and> sample_loop env_orders ''proj'' ''ds'' ''orders'' [''props'', ''notes''] [''x''] =
       sample_loop env_orders ''proj'' ''ds'' ''orders'' [''notes''] [''x'', ''status'', ''address'']"
  using sampled_document_top_level_keys [OF env_orders_facts(3) env_orders_facts(6) [unfolded props_value_def],
            of "[''notes'']" "[''x'']"]
  by simp

subsection \<open>C6: a JSON column without a sample row\<close>

text \<open>
  Claim C6: a JSON column whose sampling query returns no row contributes no field name
  and does not fail the run; the loop goes on with the remaining columns, keeping what
  the columns before it have contributed.
\<close>

theorem no_sample_row_skips_column:
  assumes "client_query E (sample_query p d t col) = Inr []"
  shows "sample_loop E p d t [col] [] = Inr []
    \<and> sample_loop E p d t (col # cols) new_columns = sample_loop E p d t cols new_columns
    \<and> (sample_loop E p d t pre [] = Inr new_columns \<longrightarrow>
         sample_loop E p d t (pre @ col # cols) [] = sample_loop E p d t cols new_columns)"
  using assms by (simp add: sample_loop_append)

theorem no_sample_row_skips_column_witness:
  "sample_loop env_orders ''proj'' ''ds'' ''orders'' [''notes''] [] = Inr []
   \<and> sample_loop env_orders ''proj'' ''ds'' ''orders'' [''props'', ''notes''] [] =
       Inr [''status'', ''address'']"
  using no_sample_row_skips_column [OF env_orders_facts(4), of "[]" "[''status'', ''address'']" "[''props'']"]
    env_orders_sample(1)
  by simp

subsection \<open>C7: a sampled value that does not decode\<close>

text \<open>
  Claim C7: when the sampled value of a JSON column does not decode, the run ends with
  that error even though the columns before it were sampled successfully, and the world
  is left as it was: no file is written and nothing is printed.
\<close>

theorem decode_failure_aborts_run:
  assumes "client_init E p = None"
    and "client_query E (json_columns_query p d t) = Inr (pre @ col # post)"
    and "sample_loop E p d t pre [] = Inr new_columns"
    and "client_query E (sample_query p d t col) = Inr (json_string # rows)"
    and "json_loads E json_string = None"
  shows "construct_flattened_sql E p d t = Inl JSONDecodeError
    \<and> run_module E p d t w = (Some JSONDecodeError, w)"
proof -
  have "sample_loop E p d t (pre @ col # post) [] = Inl JSONDecodeError"
    using assms(3-5) by (simp add: sample_loop_append)
  then have "construct_flattened_sql E p d t = Inl JSONDecodeError"
    using assms(1,2) by (simp add: construct_flattened_sql_def)
  then show ?thesis
    by (simp add: run_module_def)
qed

theorem decode_failure_aborts_run_witness:
  "sample_loop env_broken ''proj'' ''ds'' ''orders'' [''props''] [] = Inr [''status'', ''address'']
   \<and> construct_flattened_sql env_broken ''proj'' ''ds'' ''orders'' = Inl JSONDecodeError
   \<and> run_module env_broken ''proj'' ''ds'' ''orders'' world_old = (Some JSONDecodeError, world_old)"
  using decode_failure_aborts_run [OF env_broken_facts(1) env_broken_facts(2) env_broken_sample
               env_broken_facts(4) env_broken_facts(6), of world_old]
    env_broken_sample
  by simp

subsection \<open>C8: the statement and the file\<close>

text \<open>
  Claim C8: the statement is \<open>SELECT\<close>, the final column list joined with a comma and a
  space, \<open>FROM\<close>, and the three identifiers joined by dots inside one pair of backticks,
  ended by a semicolon; it is written to \<open><table_id>_flattened.sql\<close>, replacing whatever
  that file held, and no other file changes.
\<close>

theorem statement_template_and_file:
  assumes "client_init E p = None"
    and "client_query E (json_columns_query p d t) = Inr json_cols"
    and "sample_loop E p d t json_cols [] = Inr new_columns"
    and "client_query E (all_columns_query p d t) = Inr all_columns_in_table"
    and "\<not> write_denied w (t @ ''_flattened.sql'')"
  shows "(let final_columns = adjust_duplicates (sort (all_columns_in_table @ new_columns));
              sql = ''SELECT '' @ join_str '', '' final_columns @
                    '' FROM `'' @ p @ ''.'' @ d @ ''.'' @ t @ ''`;''
          in construct_flattened_sql E p d t = Inr sql
             \<and> fst (run_module E p d t w) = None
             \<and> files (snd (run_module E p d t w)) = (files w)(t @ ''_flattened.sql'' \<mapsto> sql))"
proof -
  have "construct_flattened_sql E p d t =
      Inr (final_sql p d t (adjust_duplicates (sort (all_columns_in_table @ new_columns))))"
    using assms(1-4) by (simp add: construct_flattened_sql_def)
  then show ?thesis
    using assms(5) by (simp add: run_module_def Let_def final_sql_def)
qed

theorem statement_template_and_file_witness:
  "files world_old ''orders_flattened.sql'' = Some ''SELECT 1;''
   \<and> construct_flattened_sql env_orders ''proj'' ''ds'' ''orders'' =
       Inr ''SELECT address, created_at, id, notes, props, status FROM `proj.ds.orders`;''
   \<and> fst (run_module env_orders ''proj'' ''ds'' ''orders'' world_old) = None
   \<and> files (snd (run_module env_orders ''proj'' ''ds'' ''orders'' world_old))
         ''orders_flattened.sql'' =
       Some ''SELECT address, created_at, id, notes, props, status FROM `proj.ds.orders`;''"
  using statement_template_and_file [OF env_orders_facts(1) env_orders_facts(2) env_orders_sample(2)
                env_orders_facts(5) world_old_facts(1)]
    world_old_facts(2)
  by (simp add: adjust_orders Let_def)

subsection \<open>C9: the same responses give the same output\<close>

text \<open>
  Claim C9: two runs with the same three identifiers, against warehouses that give the
  same responses to the queries the program sends (the two catalog queries and the
  sampling query of every JSON column reported) and with the same decoder, return the same
  statement or the same error; when both runs write their file, the two files have the
  same content, and a second run after a first leaves the files as the first left them.
\<close>

theorem same_responses_same_output:
  assumes "client_init E1 p = client_init E2 p"
    and "client_query E1 (json_columns_query p d t) = client_query E2 (json_columns_query p d t)"
    and "\<And>json_cols col. client_query E1 (json_columns_query p d t) = Inr json_cols \<Longrightarrow>
           col \<in> set json_cols \<Longrightarrow>
           client_query E1 (sample_query p d t col) = client_query E2 (sample_query p d t col)"
    and "json_loads E1 = json_loads E2"
    and "client_query E1 (all_columns_query p d t) = client_query E2 (all_columns_query p d t)"
  shows "construct_flattened_sql E1 p d t = construct_flattened_sql E2 p d t
    \<and> (fst (run_module E1 p d t w1) = None \<and> fst (run_module E2 p d t w2) = None \<longrightarrow>
         files (snd (run_module E1 p d t w1)) (t @ ''_flattened.sql'') =
         files (snd (run_module E2 p d t w2)) (t @ ''_flattened.sql''))
    \<and> (fst (run_module E1 p d t w) = None \<longrightarrow>
         fst (run_module E2 p d t (snd (run_module E1 p d t w))) = None
         \<and> files (snd (run_module E2 p d t (snd (run_module E1 p d t w)))) =
           files (snd (run_module E1 p d t w)))"
proof -
  have loop: "sample_loop E1 p d t json_cols [] = sample_loop E2 p d t json_cols []"
    if "client_query E1 (json_columns_query p d t) = Inr json_cols" for json_cols
    using assms(3) [OF that] assms(4) by (rule sample_loop_agree)
  have same: "construct_flattened_sql E1 p d t = construct_flattened_sql E2 p d t"
    using assms(1,2,5) loop
    by (auto simp add: construct_flattened_sql_def split: option.splits sum.splits)
  show ?thesis
    by (auto simp add: same run_module_def Let_def split: sum.splits if_splits)
qed

theorem same_responses_same_output_witness:
  "client_query env_orders ''SELECT 1'' \<noteq> client_query env_orders_again ''SELECT 1''
   \<and> construct_flattened_sql env_orders ''proj'' ''ds'' ''orders'' =
       construct_flattened_sql env_orders_again ''proj'' ''ds'' ''orders''
   \<and> fst (run_module env_orders ''proj'' ''ds'' ''orders'' world_old) = None
   \<and> files (snd (run_module env_orders_again ''proj'' ''ds'' ''orders''
                    (snd (run_module env_orders ''proj'' ''ds'' ''orders'' world_old)))) =
       files (snd (run_module env_orders ''proj'' ''ds'' ''orders'' world_old))"
  using same_responses_same_output [OF env_orders_again_facts(1) env_orders_again_facts(2) env_orders_again_facts(3)
               env_orders_again_facts(4) env_orders_again_facts(5),
            of world_old world_old world_old]
    env_orders_again_facts(6) env_orders_run
  by simp

end
